theory Spec2Isabelle
  imports Main "HOL-Library.Sublist"
begin

section \<open>Text constants of \<^verbatim>\<open>agent.py\<close>\<close>

text \<open>
  Python text is modelled as \<^typ>\<open>string\<close>. The few characters of the source outside
  ASCII (the emoji and the en dash) are written as their UTF-8 bytes; every character
  the code searches for (\<^verbatim>\<open>.\<close> and \<^verbatim>\<open>/\<close>) is ASCII, so searching bytes
  and searching code points find the same places.
\<close>

definition en_dash :: string where
  "en_dash = [CHR 0xE2, CHR 0x80, CHR 0x93]"

definition clipboard_emoji :: string where
  "clipboard_emoji = [CHR 0xF0, CHR 0x9F, CHR 0x93, CHR 0x8B]"

definition bug_emoji :: string where
  "bug_emoji = [CHR 0xF0, CHR 0x9F, CHR 0x90, CHR 0x9B]"

definition bulb_emoji :: string where
  "bulb_emoji = [CHR 0xF0, CHR 0x9F, CHR 0x92, CHR 0xA1]"

definition check_emoji :: string where
  "check_emoji = [CHR 0xE2, CHR 0x9C, CHR 0x85]"

definition test_tube_emoji :: string where
  "test_tube_emoji = [CHR 0xF0, CHR 0x9F, CHR 0xA7, CHR 0xAA]"

definition cross_mark :: string where
  "cross_mark = [CHR 0xE2, CHR 0x9D, CHR 0x8C]"

definition folder_emoji :: string where
  "folder_emoji = [CHR 0xF0, CHR 0x9F, CHR 0x93, CHR 0x82]"

text \<open>The lines of a triple-quoted literal: each one is followed by a newline.\<close>

definition text_lines :: "string list \<Rightarrow> string" where
  "text_lines ls = concat (map (\<lambda>l. l @ [CHR 0x0A]) ls)"

definition SYSTEM_PROMPT :: string where
  "SYSTEM_PROMPT = text_lines
     [ '''',
       ''You are **CodeReview Agent**, an expert AI assistant specialised in reviewing code.'',
       '''',
       ''Your capabilities:'',
       ''- Detect bugs, logic errors, and security vulnerabilities'',
       ''- Suggest performance optimisations and best practices'',
       ''- Enforce coding standards (PEP8, SOLID, DRY, etc.)'',
       ''- Explain complex code in plain English'',
       ''- Generate unit-test stubs for reviewed functions'',
       ''- Provide refactored alternatives where relevant'',
       '''',
       ''Response format:'',
       ''1. '' @ clipboard_emoji @ '' **Summary** '' @ en_dash
          @ '' one-line verdict (Pass / Needs Work / Critical Issues)'',
       ''2. '' @ bug_emoji @ '' **Issues Found** '' @ en_dash
          @ '' numbered list with severity [LOW / MEDIUM / HIGH / CRITICAL]'',
       ''3. '' @ bulb_emoji @ '' **Suggestions** '' @ en_dash @ '' actionable improvements'',
       ''4. '' @ check_emoji @ '' **Refactored Snippet** '' @ en_dash
          @ '' improved code (if applicable)'',
       ''5. '' @ test_tube_emoji @ '' **Test Stubs** '' @ en_dash
          @ '' basic unit tests (if applicable)'',
       '''',
       ''Always be concise, constructive, and beginner-friendly.'' ]"

section \<open>Messages, sessions and collaborators\<close>

text \<open>
  A history entry is the dictionary \<^verbatim>\<open>{"role": ..., "content": ...}\<close>; the code
  writes the three roles \<^verbatim>\<open>"system"\<close>, \<^verbatim>\<open>"user"\<close> and \<^verbatim>\<open>"assistant"\<close>.
\<close>

datatype role = System | User | Assistant

record message =
  role :: role
  content :: string

text \<open>
  Python exceptions, as far as the handlers of \<^verbatim>\<open>review_file\<close> tell them apart:
  \<^verbatim>\<open>FileNotFoundError\<close>, any other subclass of \<^verbatim>\<open>Exception\<close>, and an exception
  outside \<^verbatim>\<open>Exception\<close> (\<^verbatim>\<open>KeyboardInterrupt\<close>, \<^verbatim>\<open>SystemExit\<close>), which
  \<^verbatim>\<open>except Exception\<close> lets through. Each carries its \<^verbatim>\<open>str(e)\<close>.
\<close>

datatype exn = FileNotFoundError string | Exception string | BaseException string

text \<open>
  The completion collaborator: \<^verbatim>\<open>client.chat.completions.create\<close> with the fixed
  \<^verbatim>\<open>model\<close>, \<^verbatim>\<open>temperature=0.3\<close> and \<^verbatim>\<open>max_tokens=2048\<close>, as a function of the
  \<^verbatim>\<open>messages\<close> it is given. It raises, or returns a response; the response is
  represented by the \<^verbatim>\<open>message.content\<close> of its \<^verbatim>\<open>choices\<close>, in order.
\<close>

type_synonym collaborator = "message list \<Rightarrow> exn + string list"

text \<open>
  The filesystem: \<^verbatim>\<open>open(file_path, "r", encoding="utf-8")\<close> followed by
  \<^verbatim>\<open>f.read()\<close>. A failure is \<^verbatim>\<open>FileNotFoundError\<close> or another error of opening,
  reading or decoding (\<^verbatim>\<open>PermissionError\<close>, \<^verbatim>\<open>IsADirectoryError\<close>,
  \<^verbatim>\<open>UnicodeDecodeError\<close>, ...), all of them subclasses of \<^verbatim>\<open>Exception\<close>.
\<close>

datatype io_error = NotFound string | ReadError string

type_synonym filesystem = "string \<Rightarrow> io_error + string"

definition raise_io :: "io_error \<Rightarrow> exn" where
  "raise_io e = (case e of NotFound msg \<Rightarrow> FileNotFoundError msg | ReadError msg \<Rightarrow> Exception msg)"

text \<open>
  The terminal: \<^verbatim>\<open>print(text)\<close> writes the text, or raises (an encoding error on
  a terminal that cannot show it, a closed pipe, an interrupt) and writes nothing.
\<close>

type_synonym terminal = "string \<Rightarrow> exn option"

text \<open>The two attributes of \<^verbatim>\<open>CodeReviewAgent\<close> that make up the session.\<close>

record session =
  history :: "message list"
  last_code :: "string option"

text \<open>
  What a method call leaves behind: the value it returns or the exception it raises,
  the session afterwards (mutations made before a raise stay), and the \<^verbatim>\<open>messages\<close>
  of every request sent to the collaborator during the call, in order. Of the output
  printed to the terminal, the \<^verbatim>\<open>print\<close> inside the \<^verbatim>\<open>try\<close> block of
  \<^verbatim>\<open>review_file\<close> is modelled, since an exception it raises changes what the method
  does; \<^verbatim>\<open>clear_session\<close> prints after both of its assignments are done.
\<close>

record outcome =
  returned :: "exn + string"
  after :: session
  requests :: "message list list"

section \<open>The methods of \<^verbatim>\<open>CodeReviewAgent\<close>\<close>

definition system_message :: message where
  "system_message = \<lparr>role = System, content = SYSTEM_PROMPT\<rparr>"

text \<open>\<^verbatim>\<open>__init__\<close>: the attributes after construction.\<close>

definition init :: session where
  "init = \<lparr>history = [system_message], last_code = None\<rparr>"

text \<open>
  \<^verbatim>\<open>chat\<close>: the user message is appended first; \<^verbatim>\<open>create\<close> receives the list with
  it; \<^verbatim>\<open>response.choices[0]\<close> raises \<^verbatim>\<open>IndexError\<close> on an empty list; the reply is
  appended only after both succeeded.
\<close>

definition chat :: "collaborator \<Rightarrow> string \<Rightarrow> session \<Rightarrow> outcome" where
  "chat client user_message s =
     (let h = history s @ [\<lparr>role = User, content = user_message\<rparr>];
          s1 = s\<lparr>history := h\<rparr>
      in case client h of
           Inl e \<Rightarrow> \<lparr>returned = Inl e, after = s1, requests = [h]\<rparr>
         | Inr choices \<Rightarrow>
             (case choices of
                [] \<Rightarrow> \<lparr>returned = Inl (Exception ''list index out of range''),
                        after = s1, requests = [h]\<rparr>
              | reply # _ \<Rightarrow>
                  \<lparr>returned = Inr reply,
                   after = s1\<lparr>history := h @ [\<lparr>role = Assistant, content = reply\<rparr>]\<rparr>,
                   requests = [h]\<rparr>))"

text \<open>
  \<^verbatim>\<open>review_code\<close>: \<^verbatim>\<open>last_code\<close> is assigned, then the prompt is handed to
  \<^verbatim>\<open>chat\<close>. The parameter \<^verbatim>\<open>language\<close> defaults to \<^verbatim>\<open>"auto-detect"\<close>.
\<close>

definition review_prompt :: "string \<Rightarrow> string \<Rightarrow> string" where
  "review_prompt language code =
     ''Please review the following '' @ language @ '' code:'' @ [CHR 0x0A, CHR 0x0A]
       @ ''```'' @ [CHR 0x0A] @ code @ [CHR 0x0A] @ ''```''"

definition review_code :: "collaborator \<Rightarrow> string \<Rightarrow> string \<Rightarrow> session \<Rightarrow> outcome" where
  "review_code client code language s =
     chat client (review_prompt language code) (s\<lparr>last_code := Some code\<rparr>)"

definition review_code_default :: "collaborator \<Rightarrow> string \<Rightarrow> session \<Rightarrow> outcome" where
  "review_code_default client code s = review_code client code ''auto-detect'' s"

text \<open>
  \<^verbatim>\<open>os.path.splitext\<close> of the Python standard library, in its POSIX form
  (\<^verbatim>\<open>sep = "/"\<close>, no \<^verbatim>\<open>altsep\<close>, \<^verbatim>\<open>extsep = "."\<close>): the extension starts at the
  last dot after the last separator, unless only dots stand between the separator and
  that dot. \<^verbatim>\<open>str.rfind\<close> returns \<open>-1\<close> when the character does not occur.
\<close>

primrec rfind_from :: "char \<Rightarrow> string \<Rightarrow> int \<Rightarrow> int \<Rightarrow> int" where
  "rfind_from c [] i found = found"
| "rfind_from c (x # xs) i found = rfind_from c xs (i + 1) (if x = c then i else found)"

definition rfind :: "char \<Rightarrow> string \<Rightarrow> int" where
  "rfind c p = rfind_from c p 0 (- 1)"

text \<open>
  The loop of \<^verbatim>\<open>_splitext\<close> that skips leading dots: true when a character other
  than a dot stands at an index from \<open>filenameIndex\<close> up to, not including,
  \<open>dotIndex\<close>.
\<close>

function has_name_before_dot :: "string \<Rightarrow> nat \<Rightarrow> nat \<Rightarrow> bool" where
  "has_name_before_dot p filenameIndex dotIndex =
     (if filenameIndex < dotIndex
      then (if p ! filenameIndex \<noteq> CHR ''.'' then True
            else has_name_before_dot p (filenameIndex + 1) dotIndex)
      else False)"
  by pat_completeness auto
termination
  by (relation "measure (\<lambda>(p, filenameIndex, dotIndex). dotIndex - filenameIndex)") auto

definition splitext :: "string \<Rightarrow> string \<times> string" where
  "splitext p =
     (let sepIndex = rfind (CHR ''/'') p;
          dotIndex = rfind (CHR ''.'') p
      in if dotIndex > sepIndex \<and> has_name_before_dot p (nat (sepIndex + 1)) (nat dotIndex)
         then (take (nat dotIndex) p, drop (nat dotIndex) p)
         else (p, []))"

text \<open>\<^verbatim>\<open>.lstrip(".")\<close>.\<close>

definition lstrip_dots :: "string \<Rightarrow> string" where
  "lstrip_dots x = dropWhile (\<lambda>c. c = CHR ''.'') x"

definition lang_map :: "(string \<times> string) list" where
  "lang_map =
     [(''py'', ''Python''), (''js'', ''JavaScript''), (''ts'', ''TypeScript''),
      (''java'', ''Java''), (''cs'', ''C#''), (''go'', ''Go''), (''rs'', ''Rust''),
      (''cpp'', ''C++''), (''c'', ''C''), (''rb'', ''Ruby''), (''php'', ''PHP'')]"

text \<open>\<^verbatim>\<open>lang_map.get(ext, ext or "unknown")\<close>.\<close>

definition language_of_ext :: "string \<Rightarrow> string" where
  "language_of_ext ext =
     (case map_of lang_map ext of
        Some language \<Rightarrow> language
      | None \<Rightarrow> (if ext = [] then ''unknown'' else ext))"

definition language_of_path :: "string \<Rightarrow> string" where
  "language_of_path file_path = language_of_ext (lstrip_dots (snd (splitext file_path)))"

text \<open>
  The language label as the specification words it: a known extension is looked up in
  the table, an extension absent from the table passes through unchanged, and the empty
  extension is \<^verbatim>\<open>"unknown"\<close>.
\<close>

definition spec_language :: "string \<Rightarrow> string" where
  "spec_language ext =
     (if ext = [] then ''unknown''
      else if ext \<in> fst ` set lang_map then the (map_of lang_map ext)
      else ext)"

text \<open>
  The two \<^verbatim>\<open>except\<close> clauses of \<^verbatim>\<open>review_file\<close>, in order: what the method does
  with an exception raised anywhere inside its \<^verbatim>\<open>try\<close> block.
\<close>

definition except_clauses :: "string \<Rightarrow> exn \<Rightarrow> exn + string" where
  "except_clauses file_path e =
     (case e of
        FileNotFoundError _ \<Rightarrow> Inr (cross_mark @ '' File not found: '' @ file_path)
      | Exception msg \<Rightarrow> Inr (cross_mark @ '' Error reading file: '' @ msg)
      | BaseException _ \<Rightarrow> Inl e)"

text \<open>The text that \<^verbatim>\<open>review_file\<close> prints before it calls \<^verbatim>\<open>review_code\<close>.\<close>

definition reviewing_notice :: "string \<Rightarrow> string \<Rightarrow> string" where
  "reviewing_notice file_path language =
     folder_emoji @ '' Reviewing file: '' @ file_path @ '' ('' @ language @ '')'' @ [CHR 0x0A]"

text \<open>
  \<^verbatim>\<open>review_file\<close>: reading the file, computing the label, the \<^verbatim>\<open>print\<close> and
  the call of \<^verbatim>\<open>review_code\<close> all stand inside the \<^verbatim>\<open>try\<close> block, in this
  order, so the \<^verbatim>\<open>except\<close> clauses also see what \<^verbatim>\<open>print\<close> and
  \<^verbatim>\<open>review_code\<close> raise. When \<^verbatim>\<open>print\<close> raises, \<^verbatim>\<open>review_code\<close> is not
  reached.
\<close>

definition review_file ::
  "filesystem \<Rightarrow> terminal \<Rightarrow> collaborator \<Rightarrow> string \<Rightarrow> session \<Rightarrow> outcome" where
  "review_file fs out client file_path s =
     (case fs file_path of
        Inl e \<Rightarrow> \<lparr>returned = except_clauses file_path (raise_io e), after = s, requests = []\<rparr>
      | Inr code \<Rightarrow>
          (let language = language_of_path file_path
           in case out (reviewing_notice file_path language) of
                Some e \<Rightarrow> \<lparr>returned = except_clauses file_path e, after = s, requests = []\<rparr>
              | None \<Rightarrow>
                  (let r = review_code client code language s
                   in case returned r of
                        Inl e \<Rightarrow> r\<lparr>returned := except_clauses file_path e\<rparr>
                      | Inr reply \<Rightarrow> r)))"

text \<open>
  \<^verbatim>\<open>explain_last\<close>: \<^verbatim>\<open>not self.last_code\<close> holds for \<^verbatim>\<open>None\<close> and for the empty
  string.
\<close>

definition falsy :: "string option \<Rightarrow> bool" where
  "falsy v = (case v of None \<Rightarrow> True | Some t \<Rightarrow> t = [])"

definition no_code_reply :: string where
  "no_code_reply = ''No code has been reviewed yet. Please review some code first.''"

definition explain_prompt :: string where
  "explain_prompt = ''Can you explain what the last reviewed code does in simple terms?''"

definition explain_last :: "collaborator \<Rightarrow> session \<Rightarrow> outcome" where
  "explain_last client s =
     (if falsy (last_code s)
      then \<lparr>returned = Inr no_code_reply, after = s, requests = []\<rparr>
      else chat client explain_prompt s)"

text \<open>\<^verbatim>\<open>clear_session\<close> returns nothing; both attributes are assigned anew.\<close>

definition clear_session :: "session \<Rightarrow> session" where
  "clear_session s = \<lparr>history = [system_message], last_code = None\<rparr>"

section \<open>Sequences of operations\<close>

text \<open>
  The operations a caller can apply to a session. Each step of a run has its own
  filesystem, terminal and collaborator, so files may change and the collaborator may
  answer differently, or fail, from one call to the next; the session a failed call
  leaves behind is the starting point of the next one.
\<close>

datatype operation =
    Chat string
  | ReviewCode string "string option"
  | ReviewFile string
  | ExplainLast
  | Clear

fun run ::
  "filesystem \<Rightarrow> terminal \<Rightarrow> collaborator \<Rightarrow> operation \<Rightarrow> session \<Rightarrow> session" where
  "run fs out client (Chat m) s = after (chat client m s)"
| "run fs out client (ReviewCode code None) s = after (review_code_default client code s)"
| "run fs out client (ReviewCode code (Some language)) s =
     after (review_code client code language s)"
| "run fs out client (ReviewFile file_path) s = after (review_file fs out client file_path s)"
| "run fs out client ExplainLast s = after (explain_last client s)"
| "run fs out client Clear s = clear_session s"

fun run_all ::
  "(filesystem \<times> terminal \<times> collaborator \<times> operation) list \<Rightarrow> session \<Rightarrow> session" where
  "run_all [] s = s"
| "run_all ((fs, out, client, operation) # rest) s =
     run_all rest (run fs out client operation s)"

text \<open>Whether a text occurs inside another one (Python's \<^verbatim>\<open>in\<close> on strings).\<close>

definition contains :: "string \<Rightarrow> string \<Rightarrow> bool" where
  "contains t part = list_ex (\<lambda>suffix. take (length part) suffix = part) (suffixes t)"

section \<open>Sample files and collaborators\<close>

text \<open>
  A filesystem with two readable files, a terminal that shows every text, a collaborator
  that always answers and one that always fails: the concrete inputs at which the
  properties below are evaluated.
\<close>

definition demo_fs :: filesystem where
  "demo_fs p =
     (if p = ''a.py'' then Inr ''x = 1''
      else if p = ''main.rs'' then Inr ''fn main() {}''
      else Inl (NotFound ''No such file or directory''))"

definition shows_all :: terminal where
  "shows_all text = None"

definition reply_pass :: collaborator where
  "reply_pass h = Inr [''Pass'']"

definition rate_limited :: collaborator where
  "rate_limited h = Inl (Exception ''rate limit exceeded'')"

section \<open>Properties\<close>

lemma chat_requests: "requests (chat client m s) = [history s @ [\<lparr>role = User, content = m\<rparr>]]"
  by (simp add: chat_def Let_def split: sum.split list.split)

lemma chat_after_cases:
  "(\<exists>e. returned (chat client m s) = Inl e
        \<and> after (chat client m s) = s\<lparr>history := history s @ [\<lparr>role = User, content = m\<rparr>]\<rparr>)
   \<or> (\<exists>reply. returned (chat client m s) = Inr reply
        \<and> after (chat client m s) =
            s\<lparr>history := history s @ [\<lparr>role = User, content = m\<rparr>, \<lparr>role = Assistant, content = reply\<rparr>]\<rparr>)"
  by (simp add: chat_def Let_def split: sum.split list.split)

lemma chat_last_code: "last_code (after (chat client m s)) = last_code s"
  by (simp add: chat_def Let_def split: sum.split list.split)

lemma chat_answered:
  assumes "client (history s @ [\<lparr>role = User, content = m\<rparr>]) = Inr (reply # others)"
  shows "chat client m s =
           \<lparr>returned = Inr reply,
            after = s\<lparr>history := history s @ [\<lparr>role = User, content = m\<rparr>,
                                              \<lparr>role = Assistant, content = reply\<rparr>]\<rparr>,
            requests = [history s @ [\<lparr>role = User, content = m\<rparr>]]\<rparr>"
  using assms by (simp add: chat_def Let_def)

lemma chat_failed:
  assumes "client (history s @ [\<lparr>role = User, content = m\<rparr>]) = Inl e"
  shows "chat client m s =
           \<lparr>returned = Inl e,
            after = s\<lparr>history := history s @ [\<lparr>role = User, content = m\<rparr>]\<rparr>,
            requests = [history s @ [\<lparr>role = User, content = m\<rparr>]]\<rparr>"
  using assms by (simp add: chat_def Let_def)

lemma chat_returns_only_when_answered:
  assumes "returned (chat client m s) = Inr reply"
  shows "\<exists>others. client (history s @ [\<lparr>role = User, content = m\<rparr>]) = Inr (reply # others)"
  using assms by (auto simp: chat_def Let_def split: sum.splits list.splits)

text \<open>
  C1. A successful \<^verbatim>\<open>chat(m)\<close>, that is one whose request the collaborator answers
  with a response whose first choice is the reply, returns that reply and appends exactly
  two messages to the history: the user message with content \<open>m\<close>, then the assistant
  message whose content is the reply. The history grows by exactly 2, the value returned
  is the content of the appended assistant message, and the single request sent to the
  collaborator carries the whole history, the new user message included.
\<close>

theorem chat_success_appends_user_then_assistant:
  assumes "client (history s @ [\<lparr>role = User, content = m\<rparr>]) = Inr (reply # others)"
  shows "returned (chat client m s) = Inr reply
       \<and> history (after (chat client m s)) =
           history s @ [\<lparr>role = User, content = m\<rparr>, \<lparr>role = Assistant, content = reply\<rparr>]
       \<and> length (history (after (chat client m s))) = length (history s) + 2
       \<and> last_code (after (chat client m s)) = last_code s
       \<and> requests (chat client m s) = [history s @ [\<lparr>role = User, content = m\<rparr>]]"
  using assms by (simp add: chat_def Let_def)

theorem chat_success_witness:
  "reply_pass (history init @ [\<lparr>role = User, content = ''hello''\<rparr>]) = Inr [''Pass'']
   \<and> returned (chat reply_pass ''hello'' init) = Inr ''Pass''
   \<and> history (after (chat reply_pass ''hello'' init)) =
       [system_message, \<lparr>role = User, content = ''hello''\<rparr>,
        \<lparr>role = Assistant, content = ''Pass''\<rparr>]
   \<and> length (history (after (chat reply_pass ''hello'' init))) = 3
   \<and> requests (chat reply_pass ''hello'' init) =
       [[system_message, \<lparr>role = User, content = ''hello''\<rparr>]]"
proof -
  have ok: "reply_pass (history init @ [\<lparr>role = User, content = ''hello''\<rparr>]) = Inr [''Pass'']"
    by (simp add: reply_pass_def)
  from chat_success_appends_user_then_assistant
         [where client = reply_pass and s = init and m = "''hello''" and reply = "''Pass''"
            and others = "[]"] ok
  show ?thesis by (simp add: init_def)
qed

subsection \<open>The system message\<close>

lemma chat_extends:
  "\<exists>ext. history (after (chat client m s)) = history s @ ext \<and> System \<notin> role ` set ext"
  using chat_after_cases [of client m s] by auto

lemma review_code_extends:
  "\<exists>ext. history (after (review_code client code language s)) = history s @ ext
         \<and> System \<notin> role ` set ext"
  using chat_extends [of client "review_prompt language code" "s\<lparr>last_code := Some code\<rparr>"]
  by (simp add: review_code_def)

lemma review_file_after:
  "after (review_file fs out client file_path s) =
     (case fs file_path of
        Inl e \<Rightarrow> s
      | Inr code \<Rightarrow>
          (case out (reviewing_notice file_path (language_of_path file_path)) of
             Some e \<Rightarrow> s
           | None \<Rightarrow> after (review_code client code (language_of_path file_path) s)))"
  by (simp add: review_file_def Let_def split: sum.split option.split)

lemma review_file_extends:
  "\<exists>ext. history (after (review_file fs out client file_path s)) = history s @ ext
         \<and> System \<notin> role ` set ext"
proof (cases "fs file_path")
  case (Inl e)
  then show ?thesis by (simp add: review_file_after)
next
  case (Inr code)
  show ?thesis
  proof (cases "out (reviewing_notice file_path (language_of_path file_path))")
    case None
    with Inr show ?thesis
      using review_code_extends [of client code "language_of_path file_path" s]
      by (simp add: review_file_after)
  next
    case (Some e)
    with Inr show ?thesis by (simp add: review_file_after)
  qed
qed

lemma explain_last_extends:
  "\<exists>ext. history (after (explain_last client s)) = history s @ ext \<and> System \<notin> role ` set ext"
  using chat_extends [of client explain_prompt s] by (simp add: explain_last_def)

lemma run_extends:
  assumes "operation \<noteq> Clear"
  shows "\<exists>ext. history (run fs out client operation s) = history s @ ext
              \<and> System \<notin> role ` set ext"
proof (cases operation)
  case (Chat m)
  then show ?thesis using chat_extends [of client m s] by simp
next
  case (ReviewCode code lang)
  then show ?thesis
    using review_code_extends [of client code _ s]
    by (cases lang) (simp_all add: review_code_default_def)
next
  case (ReviewFile p)
  then show ?thesis using review_file_extends [of fs out client p s] by simp
next
  case ExplainLast
  then show ?thesis using explain_last_extends [of client s] by simp
next
  case Clear
  with assms show ?thesis by simp
qed

lemma run_keeps_system_first:
  assumes "history s = system_message # rest" "System \<notin> role ` set rest"
  shows "\<exists>rest'. history (run fs out client operation s) = system_message # rest'
                \<and> System \<notin> role ` set rest'"
proof (cases "operation = Clear")
  case True
  then show ?thesis by (simp add: clear_session_def)
next
  case False
  from run_extends [OF False, of fs out client s]
  obtain ext where "history (run fs out client operation s) = history s @ ext"
    and "System \<notin> role ` set ext" by blast
  with assms show ?thesis by auto
qed

lemma run_all_keeps_system_first:
  assumes "history s = system_message # rest" "System \<notin> role ` set rest"
  shows "\<exists>rest'. history (run_all steps s) = system_message # rest'
                \<and> System \<notin> role ` set rest'"
  using assms
proof (induction steps arbitrary: s rest)
  case Nil
  then show ?case by simp
next
  case (Cons step steps)
  obtain fs out client operation where step: "step = (fs, out, client, operation)"
    by (cases step) auto
  from run_keeps_system_first [OF Cons.prems, of fs out client operation]
  obtain rest' where "history (run fs out client operation s) = system_message # rest'"
    and "System \<notin> role ` set rest'" by blast
  from Cons.IH [OF this] show ?case by (simp add: step)
qed

lemma system_first_filter:
  assumes "h = system_message # rest" "System \<notin> role ` set rest"
  shows "filter (\<lambda>m. role m = System) h = [system_message]"
proof -
  have "\<forall>x \<in> set rest. role x \<noteq> System"
    using assms(2) by force
  then have "filter (\<lambda>m. role m = System) rest = []"
    by (simp add: filter_empty_conv)
  then show ?thesis using assms(1) by (simp add: system_message_def)
qed

lemma run_prefix:
  assumes "operation \<noteq> Clear"
  shows "prefix (history s) (history (run fs out client operation s))"
  using run_extends [OF assms, of fs out client s] by (auto simp: prefix_def)

text \<open>
  C2. In every session reached from the initial one by any sequence of \<^verbatim>\<open>chat\<close>,
  \<^verbatim>\<open>review_code\<close>, \<^verbatim>\<open>review_file\<close>, \<^verbatim>\<open>explain_last\<close> and
  \<^verbatim>\<open>clear_session\<close> calls (failed calls included), the history is not empty, its entry
  at index 0 is the original system message, and that entry is the only one with the
  system role. From any session, each of the four calls other than
  \<^verbatim>\<open>clear_session\<close> keeps the whole previous history as a prefix of the new one, and
  \<^verbatim>\<open>clear_session\<close> puts the same system message back as the single entry.
\<close>

theorem system_message_stays_first:
  "history (run_all steps init) \<noteq> []
   \<and> history (run_all steps init) ! 0 = system_message
   \<and> filter (\<lambda>m. role m = System) (history (run_all steps init)) = [system_message]
   \<and> prefix (history s) (history (run fs out client (Chat m) s))
   \<and> prefix (history s) (history (run fs out client (ReviewCode code language) s))
   \<and> prefix (history s) (history (run fs out client (ReviewFile file_path) s))
   \<and> prefix (history s) (history (run fs out client ExplainLast s))
   \<and> history (run fs out client Clear s) = [system_message]"
proof -
  have "history init = system_message # []" "System \<notin> role ` set []"
    by (simp_all add: init_def)
  from run_all_keeps_system_first [OF this, of steps]
  obtain rest where h: "history (run_all steps init) = system_message # rest"
    and r: "System \<notin> role ` set rest" by blast
  have a: "history (run_all steps init) \<noteq> []" "history (run_all steps init) ! 0 = system_message"
    using h by simp_all
  have b: "filter (\<lambda>m. role m = System) (history (run_all steps init)) = [system_message]"
    using system_first_filter [OF h r] .
  have c: "history (run fs out client Clear s) = [system_message]"
    by (simp add: clear_session_def)
  show ?thesis
    using a b c
      run_prefix [of "Chat m" s fs out client]
      run_prefix [of "ReviewCode code language" s fs out client]
      run_prefix [of "ReviewFile file_path" s fs out client]
      run_prefix [of ExplainLast s fs out client]
    by simp
qed

subsection \<open>\<^verbatim>\<open>chat\<close> when the collaborator fails\<close>

lemma chat_returned:
  "returned (chat client m s) =
     (case client (history s @ [\<lparr>role = User, content = m\<rparr>]) of
        Inl e \<Rightarrow> Inl e
      | Inr [] \<Rightarrow> Inl (Exception ''list index out of range'')
      | Inr (reply # others) \<Rightarrow> Inr reply)"
  by (simp add: chat_def Let_def split: sum.split list.split)

text \<open>
  C9. When the collaborator call of \<^verbatim>\<open>chat(m)\<close> fails, \<^verbatim>\<open>chat\<close> raises that
  failure, and afterwards the history is the previous history followed by exactly one
  user message with content \<open>m\<close>: no assistant message was appended and the user
  message was not taken back. \<^verbatim>\<open>last_code\<close> is untouched and one request was sent.
\<close>

theorem chat_failure_leaves_unanswered_user_turn:
  assumes "client (history s @ [\<lparr>role = User, content = m\<rparr>]) = Inl e"
  shows "returned (chat client m s) = Inl e
       \<and> history (after (chat client m s)) = history s @ [\<lparr>role = User, content = m\<rparr>]
       \<and> last_code (after (chat client m s)) = last_code s
       \<and> requests (chat client m s) = [history s @ [\<lparr>role = User, content = m\<rparr>]]"
  using assms by (simp add: chat_def Let_def)

theorem chat_failure_witness:
  "rate_limited (history init @ [\<lparr>role = User, content = ''hello''\<rparr>]) = Inl (Exception ''rate limit exceeded'')
   \<and> returned (chat rate_limited ''hello'' init) = Inl (Exception ''rate limit exceeded'')
   \<and> history (after (chat rate_limited ''hello'' init)) =
        [system_message, \<lparr>role = User, content = ''hello''\<rparr>]"
proof -
  have f: "rate_limited (history init @ [\<lparr>role = User, content = ''hello''\<rparr>]) = Inl (Exception ''rate limit exceeded'')"
    by (simp add: rate_limited_def)
  from chat_failure_leaves_unanswered_user_turn
         [where client = rate_limited and s = init and m = "''hello''"
            and e = "Exception ''rate limit exceeded''"] f
  show ?thesis by (simp add: init_def)
qed

subsection \<open>\<^verbatim>\<open>review_code\<close>\<close>

text \<open>
  C7. For every code text and every language argument, \<^verbatim>\<open>review_code\<close> leaves
  \<^verbatim>\<open>last_code\<close> equal to exactly the code text, whatever the language and whatever
  the collaborator does: when the call fails, \<^verbatim>\<open>last_code\<close> is still the code text
  and the history ends with the unanswered review prompt; when it succeeds, the history
  is longer by exactly 2. The call succeeds whenever the collaborator answers the request
  that carries the review prompt: it then returns the reply, and the history has grown
  by the prompt and the reply.
\<close>

theorem review_code_sets_last_code:
  "last_code (after (review_code client code language s)) = Some code
   \<and> (\<forall>e. returned (review_code client code language s) = Inl e \<longrightarrow>
         last_code (after (review_code client code language s)) = Some code
         \<and> history (after (review_code client code language s)) =
             history s @ [\<lparr>role = User, content = review_prompt language code\<rparr>])
   \<and> (\<forall>reply. returned (review_code client code language s) = Inr reply \<longrightarrow>
         length (history (after (review_code client code language s))) = length (history s) + 2)
   \<and> (\<forall>reply others.
         client (history s @ [\<lparr>role = User, content = review_prompt language code\<rparr>]) =
           Inr (reply # others) \<longrightarrow>
         returned (review_code client code language s) = Inr reply
         \<and> history (after (review_code client code language s)) =
             history s @ [\<lparr>role = User, content = review_prompt language code\<rparr>,
                          \<lparr>role = Assistant, content = reply\<rparr>]
         \<and> length (history (after (review_code client code language s))) =
             length (history s) + 2)"
proof -
  let ?s = "s\<lparr>last_code := Some code\<rparr>"
  have outcomes:
    "last_code (after (review_code client code language s)) = Some code
     \<and> (\<forall>e. returned (review_code client code language s) = Inl e \<longrightarrow>
           last_code (after (review_code client code language s)) = Some code
           \<and> history (after (review_code client code language s)) =
               history s @ [\<lparr>role = User, content = review_prompt language code\<rparr>])
     \<and> (\<forall>reply. returned (review_code client code language s) = Inr reply \<longrightarrow>
           length (history (after (review_code client code language s))) = length (history s) + 2)"
    using chat_after_cases [of client "review_prompt language code" ?s]
    by (auto simp: review_code_def)
  have answered:
    "returned (review_code client code language s) = Inr reply
     \<and> history (after (review_code client code language s)) =
         history s @ [\<lparr>role = User, content = review_prompt language code\<rparr>,
                      \<lparr>role = Assistant, content = reply\<rparr>]
     \<and> length (history (after (review_code client code language s))) = length (history s) + 2"
    if "client (history s @ [\<lparr>role = User, content = review_prompt language code\<rparr>]) =
          Inr (reply # others)" for reply others
  proof -
    from that
    have "client (history ?s @ [\<lparr>role = User, content = review_prompt language code\<rparr>]) =
            Inr (reply # others)" by simp
    with chat_answered
           [where client = client and s = ?s and m = "review_prompt language code"
              and reply = reply and others = others]
    show ?thesis by (simp add: review_code_def)
  qed
  show ?thesis using outcomes answered by blast
qed

theorem review_code_witness:
  "returned (review_code reply_pass ''x = 1/0'' ''auto-detect'' init) = Inr ''Pass''
   \<and> last_code (after (review_code reply_pass ''x = 1/0'' ''auto-detect'' init)) = Some ''x = 1/0''
   \<and> length (history (after (review_code reply_pass ''x = 1/0'' ''auto-detect'' init))) = 3
   \<and> returned (review_code rate_limited ''x = 1/0'' ''Python'' init) = Inl (Exception ''rate limit exceeded'')
   \<and> last_code (after (review_code rate_limited ''x = 1/0'' ''Python'' init)) = Some ''x = 1/0''"
proof -
  have ok: "returned (review_code reply_pass ''x = 1/0'' ''auto-detect'' init) = Inr ''Pass''"
    by (simp add: review_code_def chat_def reply_pass_def Let_def)
  have ko: "returned (review_code rate_limited ''x = 1/0'' ''Python'' init) = Inl (Exception ''rate limit exceeded'')"
    by (simp add: review_code_def chat_def rate_limited_def Let_def)
  from review_code_sets_last_code [of reply_pass "''x = 1/0''" "''auto-detect''" init]
       review_code_sets_last_code [of rate_limited "''x = 1/0''" "''Python''" init] ok ko
  show ?thesis by (simp add: init_def)
qed

subsection \<open>\<^verbatim>\<open>clear_session\<close>\<close>

text \<open>
  C8. Whatever the session was, after \<^verbatim>\<open>clear_session\<close> the history consists of
  exactly one message, the system message with the fixed instruction text,
  \<^verbatim>\<open>last_code\<close> is unset, and the session is the initial one.
\<close>

theorem clear_session_restores_initial_state:
  "history (clear_session s) = [\<lparr>role = System, content = SYSTEM_PROMPT\<rparr>]
   \<and> length (history (clear_session s)) = 1
   \<and> last_code (clear_session s) = None
   \<and> clear_session s = init"
  by (simp add: clear_session_def init_def system_message_def)

subsection \<open>\<^verbatim>\<open>explain_last\<close>\<close>

text \<open>
  C10. When \<^verbatim>\<open>last_code\<close> is unset, \<^verbatim>\<open>explain_last\<close> returns the fixed text
  saying that no code has been reviewed yet (it contains \<^verbatim>\<open>No code\<close>), leaves the
  history and \<^verbatim>\<open>last_code\<close> as they were, and sends no request to the collaborator.
\<close>

theorem explain_last_without_code:
  assumes "last_code s = None"
  shows "returned (explain_last client s) =
           Inr ''No code has been reviewed yet. Please review some code first.''
       \<and> contains ''No code has been reviewed yet. Please review some code first.'' ''No code''
       \<and> after (explain_last client s) = s
       \<and> requests (explain_last client s) = []"
  using assms by (simp add: explain_last_def falsy_def no_code_reply_def contains_def)

theorem explain_last_without_code_witness:
  "last_code init = None
   \<and> returned (explain_last reply_pass init) =
        Inr ''No code has been reviewed yet. Please review some code first.''
   \<and> after (explain_last reply_pass init) = init
   \<and> requests (explain_last reply_pass init) = []"
proof -
  have n: "last_code init = None" by (simp add: init_def)
  from explain_last_without_code [OF n, of reply_pass] n show ?thesis by simp
qed

text \<open>
  C3, as stated, fails in three places. After an empty text was reviewed,
  \<^verbatim>\<open>last_code\<close> is set but \<^verbatim>\<open>explain_last\<close> sends nothing and leaves the history
  alone; when the collaborator fails, the history grows by 1, not 2; and the fixed
  follow-up text contains a \<^verbatim>\<open>last_code\<close> that happens to be one of its own words.
\<close>

theorem explain_last_counterexample:
  "last_code (after (review_code reply_pass [] ''Python'' init)) = Some []
   \<and> requests (explain_last reply_pass (after (review_code reply_pass [] ''Python'' init))) = []
   \<and> history (after (explain_last reply_pass (after (review_code reply_pass [] ''Python'' init))))
       = history (after (review_code reply_pass [] ''Python'' init))
   \<and> last_code (init\<lparr>last_code := Some ''x = 1''\<rparr>) = Some ''x = 1''
   \<and> length (history (after (explain_last rate_limited (init\<lparr>last_code := Some ''x = 1''\<rparr>))))
       = length (history (init\<lparr>last_code := Some ''x = 1''\<rparr>)) + 1
   \<and> last_code (init\<lparr>last_code := Some ''code''\<rparr>) = Some ''code''
   \<and> contains
        (content (last (history (after (explain_last rate_limited (init\<lparr>last_code := Some ''code''\<rparr>)))))) 
        ''code''"
proof -
  let ?t = "after (review_code reply_pass [] ''Python'' init)"
  have b: "last_code ?t = Some []"
    by (simp add: review_code_def chat_last_code)
  have c: "explain_last reply_pass ?t = \<lparr>returned = Inr no_code_reply, after = ?t, requests = []\<rparr>"
    using b by (simp add: explain_last_def falsy_def)
  have d: "history (after (explain_last rate_limited (init\<lparr>last_code := Some v\<rparr>))) =
             history init @ [\<lparr>role = User, content = explain_prompt\<rparr>]" if "v \<noteq> []" for v
    using that by (simp add: explain_last_def falsy_def chat_def rate_limited_def Let_def)
  have e: "contains explain_prompt ''code''"
    by (simp add: contains_def explain_prompt_def)
  show ?thesis
    using b c d [of "''x = 1''"] d [of "''code''"] e by simp
qed

text \<open>
  C3, amended. When \<^verbatim>\<open>last_code\<close> is set to a text that is not empty,
  \<^verbatim>\<open>explain_last\<close> is exactly one \<^verbatim>\<open>chat\<close> call with the fixed follow-up
  instruction, a text that does not depend on \<^verbatim>\<open>last_code\<close>: one request is sent,
  the history grows by the user message and the reply (by exactly 2) when the call
  succeeds and by the user message alone when it fails, and \<^verbatim>\<open>last_code\<close> stays.
  The call succeeds, returning the reply, whenever the collaborator answers that request,
  and raises the collaborator's failure whenever the request fails.
\<close>

theorem explain_last_with_code:
  assumes "last_code s = Some code" and "code \<noteq> []"
  shows "explain_last client s = chat client explain_prompt s
       \<and> explain_prompt = ''Can you explain what the last reviewed code does in simple terms?''
       \<and> requests (explain_last client s) =
           [history s @ [\<lparr>role = User, content = explain_prompt\<rparr>]]
       \<and> (\<forall>reply. returned (explain_last client s) = Inr reply \<longrightarrow>
             history (after (explain_last client s)) =
               history s @ [\<lparr>role = User, content = explain_prompt\<rparr>,
                            \<lparr>role = Assistant, content = reply\<rparr>]
             \<and> length (history (after (explain_last client s))) = length (history s) + 2)
       \<and> (\<forall>e. returned (explain_last client s) = Inl e \<longrightarrow>
             history (after (explain_last client s)) =
               history s @ [\<lparr>role = User, content = explain_prompt\<rparr>])
       \<and> last_code (after (explain_last client s)) = Some code
       \<and> (\<forall>reply others.
             client (history s @ [\<lparr>role = User, content = explain_prompt\<rparr>]) =
               Inr (reply # others) \<longrightarrow>
             returned (explain_last client s) = Inr reply
             \<and> length (history (after (explain_last client s))) = length (history s) + 2)
       \<and> (\<forall>e. client (history s @ [\<lparr>role = User, content = explain_prompt\<rparr>]) = Inl e \<longrightarrow>
             returned (explain_last client s) = Inl e
             \<and> length (history (after (explain_last client s))) = length (history s) + 1)"
proof -
  from assms have e: "explain_last client s = chat client explain_prompt s"
    by (simp add: explain_last_def falsy_def)
  have answered:
    "returned (chat client explain_prompt s) = Inr reply
     \<and> length (history (after (chat client explain_prompt s))) = length (history s) + 2"
    if "client (history s @ [\<lparr>role = User, content = explain_prompt\<rparr>]) = Inr (reply # others)"
    for reply others
    using that
      chat_answered
        [where client = client and s = s and m = explain_prompt and reply = reply
           and others = others]
    by simp
  have failed:
    "returned (chat client explain_prompt s) = Inl x
     \<and> length (history (after (chat client explain_prompt s))) = length (history s) + 1"
    if "client (history s @ [\<lparr>role = User, content = explain_prompt\<rparr>]) = Inl x" for x
    using that chat_failed [where client = client and s = s and m = explain_prompt and e = x]
    by simp
  have p: "explain_prompt = ''Can you explain what the last reviewed code does in simple terms?''"
    by (simp add: explain_prompt_def)
  have rest: "requests (chat client explain_prompt s) =
           [history s @ [\<lparr>role = User, content = explain_prompt\<rparr>]]
       \<and> (\<forall>reply. returned (chat client explain_prompt s) = Inr reply \<longrightarrow>
             history (after (chat client explain_prompt s)) =
               history s @ [\<lparr>role = User, content = explain_prompt\<rparr>,
                            \<lparr>role = Assistant, content = reply\<rparr>]
             \<and> length (history (after (chat client explain_prompt s))) = length (history s) + 2)
       \<and> (\<forall>e. returned (chat client explain_prompt s) = Inl e \<longrightarrow>
             history (after (chat client explain_prompt s)) =
               history s @ [\<lparr>role = User, content = explain_prompt\<rparr>])
       \<and> last_code (after (chat client explain_prompt s)) = Some code"
    using assms(1) chat_after_cases [of client explain_prompt s]
    by (auto simp: chat_requests chat_last_code)
  show ?thesis
    unfolding e using p rest answered failed by blast
qed

theorem explain_last_with_code_witness:
  "last_code (after (review_code reply_pass ''x = 1'' ''Python'' init)) = Some ''x = 1''
   \<and> ''x = 1'' \<noteq> []
   \<and> returned (explain_last reply_pass (after (review_code reply_pass ''x = 1'' ''Python'' init)))
       = Inr ''Pass''
   \<and> length (history (after (explain_last reply_pass
        (after (review_code reply_pass ''x = 1'' ''Python'' init))))) = 5"
proof -
  let ?s = "after (review_code reply_pass ''x = 1'' ''Python'' init)"
  have a: "last_code ?s = Some ''x = 1''"
    by (simp add: review_code_def chat_last_code)
  have ne: "''x = 1'' \<noteq> []" by simp
  have h: "length (history ?s) = 3"
    by (simp add: review_code_def chat_def reply_pass_def Let_def init_def)
  have c: "returned (explain_last reply_pass ?s) = Inr ''Pass''"
    using a by (simp add: explain_last_def falsy_def chat_returned reply_pass_def)
  have m: "length (history (after (explain_last reply_pass ?s))) = length (history ?s) + 2"
    using explain_last_with_code [OF a ne, of reply_pass] c by blast
  show ?thesis using a ne c m h by simp
qed

subsection \<open>\<^verbatim>\<open>review_file\<close>\<close>

text \<open>
  C5. When the path does not name a readable file, \<^verbatim>\<open>review_file\<close> returns an
  error text instead of raising (the not-found text with the path, or the read-error
  text with the error's message), the session afterwards is the session before, and no
  request is sent to the collaborator.
\<close>

theorem review_file_unreadable_returns_error_text:
  assumes "fs file_path = Inl e"
  shows "returned (review_file fs out client file_path s) =
           Inr (case e of
                  NotFound msg \<Rightarrow> cross_mark @ '' File not found: '' @ file_path
                | ReadError msg \<Rightarrow> cross_mark @ '' Error reading file: '' @ msg)
       \<and> after (review_file fs out client file_path s) = s
       \<and> requests (review_file fs out client file_path s) = []"
  using assms
  by (simp add: review_file_def except_clauses_def raise_io_def split: io_error.split)

theorem review_file_unreadable_witness:
  "demo_fs ''/nonexistent/path/file.py'' = Inl (NotFound ''No such file or directory'')
   \<and> returned (review_file demo_fs shows_all reply_pass ''/nonexistent/path/file.py'' init) =
        Inr (cross_mark @ '' File not found: /nonexistent/path/file.py'')
   \<and> after (review_file demo_fs shows_all reply_pass ''/nonexistent/path/file.py'' init) = init
   \<and> requests (review_file demo_fs shows_all reply_pass ''/nonexistent/path/file.py'' init) = []"
proof -
  have f: "demo_fs ''/nonexistent/path/file.py'' = Inl (NotFound ''No such file or directory'')"
    by (simp add: demo_fs_def)
  from review_file_unreadable_returns_error_text
         [where fs = demo_fs and file_path = "''/nonexistent/path/file.py''"
            and e = "NotFound ''No such file or directory''" and out = shows_all
            and client = reply_pass and s = init] f
  show ?thesis by simp
qed

text \<open>
  The label computed by the code is the one the specification describes. On a readable
  file whose notice the terminal shows, \<^verbatim>\<open>review_file\<close> leaves the session and
  sends the request of \<^verbatim>\<open>review_code\<close> on the file's contents, and its result is
  that of \<^verbatim>\<open>review_code\<close> passed through the \<^verbatim>\<open>except\<close> clauses. When the
  \<^verbatim>\<open>print\<close> of the notice raises, \<^verbatim>\<open>review_code\<close> is not called: the
  exception goes through the \<^verbatim>\<open>except\<close> clauses, the session stays as it was and
  no request is sent.
\<close>

lemma language_of_ext_spec: "language_of_ext ext = spec_language ext"
  by (auto simp: language_of_ext_def spec_language_def lang_map_def split: option.split)

lemma language_a_py: "language_of_path ''a.py'' = ''Python''"
  by (simp add: language_of_path_def splitext_def rfind_def lstrip_dots_def
      language_of_ext_def lang_map_def)

lemma language_main_rs: "language_of_path ''main.rs'' = ''Rust''"
  by (simp add: language_of_path_def splitext_def rfind_def lstrip_dots_def
      language_of_ext_def lang_map_def)

lemma review_file_readable:
  assumes "fs file_path = Inr code"
    and "out (reviewing_notice file_path (language_of_path file_path)) = None"
  shows "after (review_file fs out client file_path s) =
           after (review_code client code (language_of_path file_path) s)"
    and "requests (review_file fs out client file_path s) =
           requests (review_code client code (language_of_path file_path) s)"
    and "returned (review_file fs out client file_path s) =
           (case returned (review_code client code (language_of_path file_path) s) of
              Inl e \<Rightarrow> except_clauses file_path e
            | Inr reply \<Rightarrow> Inr reply)"
  using assms by (simp_all add: review_file_def Let_def split: sum.split)

lemma review_file_print_raises:
  assumes "fs file_path = Inr code"
    and "out (reviewing_notice file_path (language_of_path file_path)) = Some e"
  shows "review_file fs out client file_path s =
           \<lparr>returned = except_clauses file_path e, after = s, requests = []\<rparr>"
  using assms by (simp add: review_file_def Let_def)

lemma review_file_agrees_when_not_caught:
  assumes "fs file_path = Inr code"
    and "out (reviewing_notice file_path (language_of_path file_path)) = None"
    and "returned (review_code client code (language_of_path file_path) s) = Inr reply
         \<or> returned (review_code client code (language_of_path file_path) s) = Inl (BaseException msg)"
  shows "review_file fs out client file_path s =
           review_code client code (language_of_path file_path) s"
  using assms by (auto simp: review_file_def Let_def except_clauses_def)

text \<open>
  \<^verbatim>\<open>review_code\<close> and \<^verbatim>\<open>explain_last\<close> have no handler: what the collaborator
  raises is raised by them unchanged.
\<close>

lemma review_code_propagates:
  assumes "client (history s @ [\<lparr>role = User, content = review_prompt language code\<rparr>]) = Inl e"
  shows "returned (review_code client code language s) = Inl e"
  using assms by (simp add: review_code_def chat_returned)

lemma explain_last_propagates:
  assumes "\<not> falsy (last_code s)"
    and "client (history s @ [\<lparr>role = User, content = explain_prompt\<rparr>]) = Inl e"
  shows "returned (explain_last client s) = Inl e"
  using assms by (simp add: explain_last_def chat_returned)

text \<open>
  C4 does not hold for \<^verbatim>\<open>review_file\<close>: with a readable file and a collaborator
  that fails with a subclass of \<^verbatim>\<open>Exception\<close>, the failure is caught by the
  \<^verbatim>\<open>except\<close> clause meant for read errors and comes back as a returned text. (One
  request was sent: there is no retry.)
\<close>

theorem review_file_swallows_collaborator_failure:
  "demo_fs ''a.py'' = Inr ''x = 1''
   \<and> rate_limited (history init @ [\<lparr>role = User, content = review_prompt ''Python'' ''x = 1''\<rparr>])
        = Inl (Exception ''rate limit exceeded'')
   \<and> returned (review_file demo_fs shows_all rate_limited ''a.py'' init) =
        Inr (cross_mark @ '' Error reading file: rate limit exceeded'')
   \<and> requests (review_file demo_fs shows_all rate_limited ''a.py'' init) =
        [history init @ [\<lparr>role = User, content = review_prompt ''Python'' ''x = 1''\<rparr>]]"
proof -
  have f: "demo_fs ''a.py'' = Inr ''x = 1''"
    by (simp add: demo_fs_def)
  have r: "returned (review_code rate_limited ''x = 1'' ''Python'' init) =
             Inl (Exception ''rate limit exceeded'')"
    by (simp add: review_code_def chat_returned rate_limited_def)
  have q: "requests (review_code rate_limited ''x = 1'' ''Python'' init) =
             [history init @ [\<lparr>role = User, content = review_prompt ''Python'' ''x = 1''\<rparr>]]"
    by (simp add: review_code_def chat_requests)
  show ?thesis
    using f r q
      review_file_readable
        [where fs = demo_fs and out = shows_all and file_path = "''a.py''"
           and code = "''x = 1''" and client = rate_limited and s = init]
    by (simp add: language_a_py except_clauses_def rate_limited_def shows_all_def)
qed

text \<open>
  C6 does not hold when the collaborator fails: on the readable file
  \<^verbatim>\<open>main.rs\<close>, labelled \<^verbatim>\<open>Rust\<close>, \<^verbatim>\<open>review_code\<close> raises the failure while
  \<^verbatim>\<open>review_file\<close> returns a text.
\<close>

theorem review_file_differs_from_review_code_on_failure:
  "demo_fs ''main.rs'' = Inr ''fn main() {}''
   \<and> language_of_path ''main.rs'' = ''Rust''
   \<and> returned (review_code rate_limited ''fn main() {}'' ''Rust'' init) =
        Inl (Exception ''rate limit exceeded'')
   \<and> returned (review_file demo_fs shows_all rate_limited ''main.rs'' init) =
        Inr (cross_mark @ '' Error reading file: rate limit exceeded'')"
proof -
  have f: "demo_fs ''main.rs'' = Inr ''fn main() {}''"
    by (simp add: demo_fs_def)
  have r: "returned (review_code rate_limited ''fn main() {}'' ''Rust'' init) =
             Inl (Exception ''rate limit exceeded'')"
    by (simp add: review_code_def chat_returned rate_limited_def)
  show ?thesis
    using f r
      review_file_readable(3)
        [where fs = demo_fs and out = shows_all and file_path = "''main.rs''"
           and code = "''fn main() {}''" and client = rate_limited and s = init]
    by (simp add: language_main_rs except_clauses_def shows_all_def)
qed

end
